theory Spec2Isabelle
  imports Complex_Main
begin

section \<open>Numbers\<close>

text \<open>
  The fields of a rectangle and of a matrix are JavaScript numbers, that is IEEE doubles.
  A number is modelled as a finite value, one of the two infinities, or NaN. The special
  values follow the IEEE rules that JavaScript uses: a division by zero is infinite (or
  NaN for \<open>0 / 0\<close>), zero times an infinity is NaN, opposite infinities add to NaN, and
  NaN is absorbing. A sum, product or quotient of finite values overflows to an infinity
  when its magnitude reaches \<open>2^1024 - 2^970\<close>, the least magnitude that rounds to an
  infinity in a double. Below that bound a finite result is the exact real: rounding
  to 53 bits is not modelled, and zero carries no sign (so a division of a positive value
  by zero is always \<open>PInf\<close>). Equality of two numbers is equality of model values.
\<close>

datatype number = Fin real | PInf | NInf | NaN

definition overflow_bound :: real where
  "overflow_bound = 2 ^ 1024 - 2 ^ 970"

definition overflow :: "real \<Rightarrow> number" where
  "overflow r =
     (if overflow_bound \<le> r then PInf else if r \<le> - overflow_bound then NInf else Fin r)"

fun isFinite :: "number \<Rightarrow> bool" where
  "isFinite (Fin r) = True"
| "isFinite PInf = False"
| "isFinite NInf = False"
| "isFinite NaN = False"

instantiation number :: "{uminus, plus, times, divide}"
begin

fun uminus_number :: "number \<Rightarrow> number" where
  "uminus_number (Fin r) = Fin (- r)"
| "uminus_number PInf = NInf"
| "uminus_number NInf = PInf"
| "uminus_number NaN = NaN"

fun plus_number :: "number \<Rightarrow> number \<Rightarrow> number" where
  "plus_number (Fin r) (Fin s) = overflow (r + s)"
| "plus_number (Fin r) PInf = PInf"
| "plus_number (Fin r) NInf = NInf"
| "plus_number (Fin r) NaN = NaN"
| "plus_number PInf (Fin s) = PInf"
| "plus_number PInf PInf = PInf"
| "plus_number PInf NInf = NaN"
| "plus_number PInf NaN = NaN"
| "plus_number NInf (Fin s) = NInf"
| "plus_number NInf PInf = NaN"
| "plus_number NInf NInf = NInf"
| "plus_number NInf NaN = NaN"
| "plus_number NaN u = NaN"

fun times_number :: "number \<Rightarrow> number \<Rightarrow> number" where
  "times_number (Fin r) (Fin s) = overflow (r * s)"
| "times_number (Fin r) PInf = (if r = 0 then NaN else if 0 < r then PInf else NInf)"
| "times_number (Fin r) NInf = (if r = 0 then NaN else if 0 < r then NInf else PInf)"
| "times_number (Fin r) NaN = NaN"
| "times_number PInf (Fin s) = (if s = 0 then NaN else if 0 < s then PInf else NInf)"
| "times_number PInf PInf = PInf"
| "times_number PInf NInf = NInf"
| "times_number PInf NaN = NaN"
| "times_number NInf (Fin s) = (if s = 0 then NaN else if 0 < s then NInf else PInf)"
| "times_number NInf PInf = NInf"
| "times_number NInf NInf = PInf"
| "times_number NInf NaN = NaN"
| "times_number NaN u = NaN"

fun divide_number :: "number \<Rightarrow> number \<Rightarrow> number" where
  "divide_number (Fin r) (Fin s) =
     (if s = 0 then (if r = 0 then NaN else if 0 < r then PInf else NInf)
      else overflow (r / s))"
| "divide_number (Fin r) PInf = Fin 0"
| "divide_number (Fin r) NInf = Fin 0"
| "divide_number (Fin r) NaN = NaN"
| "divide_number PInf (Fin s) = (if 0 \<le> s then PInf else NInf)"
| "divide_number PInf PInf = NaN"
| "divide_number PInf NInf = NaN"
| "divide_number PInf NaN = NaN"
| "divide_number NInf (Fin s) = (if 0 \<le> s then NInf else PInf)"
| "divide_number NInf PInf = NaN"
| "divide_number NInf NInf = NaN"
| "divide_number NInf NaN = NaN"
| "divide_number NaN u = NaN"

instance ..

end

instantiation number :: "{minus, inverse}"
begin

definition minus_number :: "number \<Rightarrow> number \<Rightarrow> number" where
  "minus_number u v = u + (- v)"

definition inverse_number :: "number \<Rightarrow> number" where
  "inverse_number u = divide (Fin 1) u"

instance ..

end

section \<open>Rectangle and Matrix\<close>

text \<open>
  \<open>Rectangle\<close> and \<open>Matrix\<close> come from the package \<open>@pixi/math\<close>; the projection system
  reads the four fields of a rectangle and writes fields of a matrix. Objects are modelled
  by their field values.
\<close>

record Rectangle =
  x :: number
  y :: number
  width :: number
  height :: number

record Matrix =
  a :: number
  b :: number
  c :: number
  d :: number
  tx :: number
  ty :: number

text \<open>
  The constructor of \<open>Matrix\<close> is not under src/. A new matrix is taken to be the
  identity, the default of \<open>@pixi/math\<close>; only the concrete states of the examples below
  start from it.
\<close>

definition Matrix_new :: Matrix where
  "Matrix_new = \<lparr>a = Fin 1, b = Fin 0, c = Fin 0, d = Fin 1, tx = Fin 0, ty = Fin 0\<rparr>"

text \<open>
  Modelled from the spec: the point map of an affine matrix (\<open>Matrix.apply\<close> of
  \<open>@pixi/math\<close>, not under src/). Section 3 of the spec gives it as
  \<open>x' = a x + c y + tx\<close>, \<open>y' = b x + d y + ty\<close>.
\<close>

definition Matrix_apply :: "Matrix \<Rightarrow> number \<times> number \<Rightarrow> number \<times> number" where
  "Matrix_apply m p =
     (a m * fst p + c m * snd p + tx m, b m * fst p + d m * snd p + ty m)"

text \<open>
  Modelled from the spec: \<open>Matrix.append\<close> of \<open>@pixi/math\<close> is not under src/. The spec
  (section 4.3) names the composition: appending is post-multiplying, so
  \<open>m.append(t)\<close> leaves in \<open>m\<close> the product of \<open>m\<close> and \<open>t\<close>, with \<open>t\<close> as the right
  factor. In the convention of section 3, where a matrix acts on a point by
  \<open>x' = a x + c y + tx\<close>, \<open>y' = b x + d y + ty\<close>, the right factor of a product acts on the
  point first. Each component is a sum of products, added from left to right.
\<close>

definition Matrix_append :: "Matrix \<Rightarrow> Matrix \<Rightarrow> Matrix" where
  "Matrix_append m t =
     \<lparr>a = a t * a m + b t * c m,
      b = a t * b m + b t * d m,
      c = c t * a m + d t * c m,
      d = c t * b m + d t * d m,
      tx = tx t * a m + ty t * c m + tx m,
      ty = tx t * b m + ty t * d m + ty m\<rparr>"

definition finiteMatrix :: "Matrix \<Rightarrow> bool" where
  "finiteMatrix m =
     (isFinite (a m) \<and> isFinite (b m) \<and> isFinite (c m) \<and> isFinite (d m)
      \<and> isFinite (tx m) \<and> isFinite (ty m))"

definition finitePoint :: "number \<times> number \<Rightarrow> bool" where
  "finitePoint p = (isFinite (fst p) \<and> isFinite (snd p))"

section \<open>The host renderer\<close>

text \<open>
  The renderer is an external collaborator. The projection system touches three things of
  it: the key/value store \<open>renderer.globalUniforms.uniforms\<close>, the nullable handle
  \<open>renderer.shader.shader\<close> of the bound shader, and the two methods
  \<open>globalUniforms.update()\<close> and \<open>shader.syncUniformGroup(group)\<close>, whose calls are
  recorded in order in \<open>calls\<close>. The store receives a reference to the projection matrix;
  the model stores the value the matrix has at the write, which is its value when
  \<open>update\<close> returns, since \<open>update\<close> does not touch the matrix after the write.
\<close>

datatype UniformGroup = UniformGroup nat

record Shader =
  globals :: UniformGroup

datatype call = GlobalUniforms_update | SyncUniformGroup UniformGroup

record Renderer =
  uniforms :: "string \<rightharpoonup> Matrix"
  shader :: "Shader option"
  calls :: "call list"

section \<open>ProjectionSystem\<close>

record ProjectionSystem =
  destinationFrame :: "Rectangle option"
  sourceFrame :: "Rectangle option"
  defaultFrame :: "Rectangle option"
  projectionMatrix :: Matrix
  transform :: "Matrix option"
  renderer :: Renderer

text \<open>
  A method either returns or throws; in both cases the fields written before that point
  keep their new values. Reading a field of \<open>null\<close> throws a \<open>TypeError\<close>.
\<close>

datatype error = TypeError

datatype completion = Normal | Throws error

definition "constructor" :: "Renderer \<Rightarrow> ProjectionSystem" where
  "constructor r =
     \<lparr>destinationFrame = None, sourceFrame = None, defaultFrame = None,
      projectionMatrix = Matrix_new, transform = None, renderer = r\<rparr>"

text \<open>The operator \<open>||\<close> on two object references, \<open>null\<close> being \<open>None\<close>.\<close>

fun orElse :: "'a option \<Rightarrow> 'a option \<Rightarrow> 'a option" where
  "orElse (Some v) w = Some v"
| "orElse None w = w"

text \<open>
  Lines 77 and 78 of \<open>update\<close>: the stored destination falls back to the stored one and
  then to \<open>defaultFrame\<close>; the stored source falls back to the stored one and then to the
  argument \<open>destinationFrame\<close> of the call.
\<close>

definition resolveFrames ::
  "Rectangle option \<Rightarrow> Rectangle option \<Rightarrow> ProjectionSystem \<Rightarrow> ProjectionSystem" where
  "resolveFrames dst src s =
     s\<lparr>destinationFrame := orElse dst (orElse (destinationFrame s) (defaultFrame s)),
       sourceFrame := orElse src (orElse (sourceFrame s) dst)\<rparr>"

text \<open>
  \<open>calculateProjection\<close> (lines 109 to 122) writes \<open>a\<close>, \<open>d\<close>, \<open>tx\<close> and \<open>ty\<close> of the live
  matrix, in that order, reading back the \<open>a\<close> and \<open>d\<close> it has just written. Its first and
  third arguments are unused. With a \<open>null\<close> source frame the read of \<open>width\<close> throws
  before anything is written.
\<close>

definition calculateProjection ::
  "Rectangle option \<Rightarrow> Rectangle option \<Rightarrow> number \<Rightarrow> bool \<Rightarrow> ProjectionSystem
     \<Rightarrow> completion \<times> ProjectionSystem" where
  "calculateProjection dst src resolution isRoot s =
     (case src of
        None \<Rightarrow> (Throws TypeError, s)
      | Some sf \<Rightarrow>
          (let sign = (if \<not> isRoot then Fin 1 else Fin (- 1));
               pm1 = (projectionMatrix s)\<lparr>a := Fin 1 / width sf * Fin 2\<rparr>;
               pm2 = pm1\<lparr>d := sign * (Fin 1 / height sf * Fin 2)\<rparr>;
               pm3 = pm2\<lparr>tx := Fin (- 1) - x sf * a pm2\<rparr>;
               pm4 = pm3\<lparr>ty := - sign - y sf * d pm3\<rparr>
           in (Normal, s\<lparr>projectionMatrix := pm4\<rparr>)))"

text \<open>Lines 83 to 86 of \<open>update\<close>: a non-null \<open>transform\<close> is appended to the matrix.\<close>

definition appendTransform :: "ProjectionSystem \<Rightarrow> ProjectionSystem" where
  "appendTransform s =
     (case transform s of
        None \<Rightarrow> s
      | Some t \<Rightarrow> s\<lparr>projectionMatrix := Matrix_append (projectionMatrix s) t\<rparr>)"

text \<open>
  Lines 88 to 98 of \<open>update\<close>: the matrix is stored under the key \<open>projectionMatrix\<close>,
  \<open>globalUniforms.update()\<close> is called, and the globals group of the bound shader, if
  there is one, is synchronised.
\<close>

definition propagate :: "Matrix \<Rightarrow> Renderer \<Rightarrow> Renderer" where
  "propagate pm r =
     (let r1 = r\<lparr>uniforms := (uniforms r)(''projectionMatrix'' \<mapsto> pm)\<rparr>;
          r2 = r1\<lparr>calls := calls r1 @ [GlobalUniforms_update]\<rparr>
      in case shader r2 of
           None \<Rightarrow> r2
         | Some sh \<Rightarrow> r2\<lparr>calls := calls r2 @ [SyncUniformGroup (globals sh)]\<rparr>)"

text \<open>
  Lines 77 to 81 of \<open>update\<close>: the frames are resolved and stored, and
  \<open>calculateProjection\<close> is called with the two stored frames.
\<close>

definition resolveAndProject ::
  "Rectangle option \<Rightarrow> Rectangle option \<Rightarrow> number \<Rightarrow> bool \<Rightarrow> ProjectionSystem
     \<Rightarrow> completion \<times> ProjectionSystem" where
  "resolveAndProject dst src resolution isRoot s =
     (let s1 = resolveFrames dst src s
      in calculateProjection (destinationFrame s1) (sourceFrame s1) resolution isRoot s1)"

text \<open>
  \<open>update\<close> (lines 75 to 99). A throw of \<open>calculateProjection\<close> ends the call: nothing is
  appended and nothing reaches the renderer.
\<close>

definition update ::
  "Rectangle option \<Rightarrow> Rectangle option \<Rightarrow> number \<Rightarrow> bool \<Rightarrow> ProjectionSystem
     \<Rightarrow> completion \<times> ProjectionSystem" where
  "update dst src resolution isRoot s =
     (case resolveAndProject dst src resolution isRoot s of
        (Throws e, s2) \<Rightarrow> (Throws e, s2)
      | (Normal, s2) \<Rightarrow>
          (let s3 = appendTransform s2
           in (Normal, s3\<lparr>renderer := propagate (projectionMatrix s3) (renderer s3)\<rparr>)))"

text \<open>\<open>setTransform\<close> (lines 129 to 132) has an empty body.\<close>

definition setTransform :: "Matrix \<Rightarrow> ProjectionSystem \<Rightarrow> ProjectionSystem" where
  "setTransform m s = s"

section \<open>Concrete inputs\<close>

text \<open>
  The frame of the spec's examples, a frame of width zero, one of height zero, one whose
  width is the least positive double, a renderer with no shader bound and one with a
  shader, a quarter turn, and a scaling with a translation.
\<close>

definition frame_800_600 :: Rectangle where
  "frame_800_600 = \<lparr>x = Fin 0, y = Fin 0, width = Fin 800, height = Fin 600\<rparr>"

definition frame_zero_width :: Rectangle where
  "frame_zero_width = \<lparr>x = Fin 0, y = Fin 0, width = Fin 0, height = Fin 600\<rparr>"

definition frame_zero_height :: Rectangle where
  "frame_zero_height = \<lparr>x = Fin 10, y = Fin 20, width = Fin 800, height = Fin 0\<rparr>"

definition frame_tiny_width :: Rectangle where
  "frame_tiny_width = \<lparr>x = Fin 0, y = Fin 0, width = Fin (1 / 2 ^ 1074), height = Fin 600\<rparr>"

definition renderer_no_shader :: Renderer where
  "renderer_no_shader = \<lparr>uniforms = Map.empty, shader = None, calls = []\<rparr>"

definition renderer_with_shader :: Renderer where
  "renderer_with_shader =
     \<lparr>uniforms = Map.empty, shader = Some \<lparr>globals = UniformGroup 7\<rparr>, calls = []\<rparr>"

definition quarter_turn :: Matrix where
  "quarter_turn = \<lparr>a = Fin 0, b = Fin 1, c = Fin (- 1), d = Fin 0, tx = Fin 0, ty = Fin 0\<rparr>"

definition scaling :: Matrix where
  "scaling = \<lparr>a = Fin 2, b = Fin 0, c = Fin 0, d = Fin 3, tx = Fin 1, ty = Fin 0\<rparr>"

section \<open>Facts about numbers\<close>

lemma overflow_bound_pos: "0 < overflow_bound"
  by (simp add: overflow_bound_def)

lemma overflow_small:
  assumes "\<bar>r\<bar> \<le> 2 ^ 64"
  shows "overflow r = Fin r"
proof -
  have "(2::real) ^ 64 < overflow_bound"
    by (simp add: overflow_bound_def)
  with assms have "\<not> overflow_bound \<le> r" and "\<not> r \<le> - overflow_bound"
    by linarith+
  then show ?thesis
    by (simp add: overflow_def)
qed

lemma overflow_large:
  assumes "2 ^ 1024 \<le> r"
  shows "overflow r = PInf"
proof -
  have "overflow_bound \<le> (2::real) ^ 1024"
    by (simp add: overflow_bound_def)
  with assms have "overflow_bound \<le> r"
    by linarith
  then show ?thesis
    by (simp add: overflow_def)
qed

lemma overflow_0: "overflow 0 = Fin 0"
  using overflow_bound_pos by (simp add: overflow_def)

lemma uminus_overflow: "- overflow r = overflow (- r)"
  using overflow_bound_pos by (auto simp: overflow_def)

lemma isFinite_iff: "isFinite u \<longleftrightarrow> (\<exists>r. u = Fin r)"
  by (cases u) simp_all

lemma overflow_eq_Fin: "overflow r = Fin q \<Longrightarrow> q = r"
  by (auto simp: overflow_def split: if_splits)

lemma one_times_overflow: "Fin 1 * overflow r = overflow r"
  using overflow_bound_pos by (auto simp: overflow_def)

lemma minus_one_times_overflow: "Fin (- 1) * overflow r = - overflow r"
  using overflow_bound_pos by (auto simp: overflow_def)

lemma twice_inverse: "Fin 1 / u * Fin 2 = Fin 2 / u"
proof (cases u)
  case (Fin w)
  show ?thesis
  proof (cases "w = 0")
    case True
    with Fin show ?thesis by simp
  next
    case False
    have "overflow (1 / w) * Fin 2 = overflow (2 / w)"
      using overflow_bound_pos by (auto simp: overflow_def)
    with Fin False show ?thesis by simp
  qed
qed (simp_all add: overflow_0)

lemma one_times_quot: "Fin 1 * (Fin 2 / u) = Fin 2 / u"
  by (cases u) (simp_all add: one_times_overflow overflow_0)

lemma minus_one_times_quot: "Fin (- 1) * (Fin 2 / u) = - (Fin 2 / u)"
  by (cases u) (simp_all add: minus_one_times_overflow overflow_0)

lemma uminus_plus: "- (u + v) = - u + - (v::number)"
  by (cases u; cases v) (simp_all add: uminus_overflow)

lemma uminus_uminus: "- (- u) = (u::number)"
  by (cases u) simp_all

lemma zero_times_uminus: "Fin 0 * (- u) = Fin 0 * u"
  by (cases u) simp_all

lemma uminus_zero_times: "- (Fin 0 * u) = Fin 0 * u"
  by (cases u) (simp_all add: overflow_0)

lemma times_commute: "u * v = v * (u::number)"
  by (cases u; cases v) (simp_all add: mult.commute)

lemma not_finite_times: "\<not> isFinite v \<Longrightarrow> \<not> isFinite (u * v)"
  by (cases u; cases v) simp_all

lemma not_finite_plus_left: "\<not> isFinite u \<Longrightarrow> \<not> isFinite (u + v)"
  by (cases u; cases v) simp_all

lemma not_finite_plus_right: "\<not> isFinite v \<Longrightarrow> \<not> isFinite (u + v)"
  by (cases u; cases v) simp_all

text \<open>
  A finite sum or product has finite operands and has not overflowed, so it is the
  exact sum or product.
\<close>

lemma plus_eq_Fin:
  assumes "u + v = Fin q"
  shows "\<exists>r s. u = Fin r \<and> v = Fin s \<and> q = r + s"
  using assms by (cases u; cases v) (auto dest: overflow_eq_Fin)

lemma times_eq_Fin:
  assumes "u * v = Fin q"
  shows "\<exists>r s. u = Fin r \<and> v = Fin s \<and> q = r * s"
  using assms by (cases u; cases v) (auto dest: overflow_eq_Fin split: if_splits)

lemma affine_Fin:
  assumes "u * p + v * q + w = Fin z"
  shows "\<exists>ur pr vr qr wr. u = Fin ur \<and> p = Fin pr \<and> v = Fin vr \<and> q = Fin qr \<and> w = Fin wr
     \<and> z = ur * pr + vr * qr + wr"
proof -
  from plus_eq_Fin [OF assms] obtain k wr where
    k: "u * p + v * q = Fin k" and w: "w = Fin wr" and z: "z = k + wr"
    by blast
  from plus_eq_Fin [OF k] obtain k1 k2 where
    k1: "u * p = Fin k1" and k2: "v * q = Fin k2" and kk: "k = k1 + k2"
    by blast
  from times_eq_Fin [OF k1] obtain ur pr where "u = Fin ur" "p = Fin pr" "k1 = ur * pr"
    by blast
  moreover from times_eq_Fin [OF k2] obtain vr qr where "v = Fin vr" "q = Fin qr" "k2 = vr * qr"
    by blast
  ultimately show ?thesis
    using w z kk by simp
qed

lemma bilinear_Fin:
  assumes "u * p + v * q = Fin z"
  shows "\<exists>ur pr vr qr. u = Fin ur \<and> p = Fin pr \<and> v = Fin vr \<and> q = Fin qr
     \<and> z = ur * pr + vr * qr"
proof -
  from plus_eq_Fin [OF assms] obtain k1 k2 where
    k1: "u * p = Fin k1" and k2: "v * q = Fin k2" and kk: "z = k1 + k2"
    by blast
  from times_eq_Fin [OF k1] obtain ur pr where "u = Fin ur" "p = Fin pr" "k1 = ur * pr"
    by blast
  moreover from times_eq_Fin [OF k2] obtain vr qr where "v = Fin vr" "q = Fin qr" "k2 = vr * qr"
    by blast
  ultimately show ?thesis
    using kk by simp
qed

text \<open>
  In this arithmetic, which does not round, the appended matrix is the composition of
  the two point maps whenever nothing overflows: first the appended matrix, then the
  matrix appended to. In doubles the two sides agree up to rounding only.
\<close>

lemma Matrix_apply_append:
  assumes "finiteMatrix (Matrix_append m t)"
    and "finitePoint (Matrix_apply (Matrix_append m t) p)"
    and "finitePoint (Matrix_apply m (Matrix_apply t p))"
  shows "Matrix_apply (Matrix_append m t) p = Matrix_apply m (Matrix_apply t p)"
proof -
  obtain u v where p: "p = (u, v)"
    by (cases p)
  from assms(1) obtain a' b' c' d' tx' ty' where comp:
    "a t * a m + b t * c m = Fin a'" "a t * b m + b t * d m = Fin b'"
    "c t * a m + d t * c m = Fin c'" "c t * b m + d t * d m = Fin d'"
    "tx t * a m + ty t * c m + tx m = Fin tx'" "tx t * b m + ty t * d m + ty m = Fin ty'"
    unfolding finiteMatrix_def Matrix_append_def isFinite_iff by auto
  from assms(2) obtain fx fy where left:
    "Fin a' * u + Fin c' * v + Fin tx' = Fin fx" "Fin b' * u + Fin d' * v + Fin ty' = Fin fy"
    unfolding finitePoint_def Matrix_apply_def Matrix_append_def isFinite_iff p
    by (auto simp: comp)
  from assms(3) obtain gx gy where right:
    "a m * (a t * u + c t * v + tx t) + c m * (b t * u + d t * v + ty t) + tx m = Fin gx"
    "b m * (a t * u + c t * v + tx t) + d m * (b t * u + d t * v + ty t) + ty m = Fin gy"
    unfolding finitePoint_def Matrix_apply_def isFinite_iff p by auto
  from bilinear_Fin [OF comp(1)] bilinear_Fin [OF comp(2)] bilinear_Fin [OF comp(3)]
    bilinear_Fin [OF comp(4)] affine_Fin [OF comp(5)] affine_Fin [OF comp(6)]
  obtain t1 t2 t3 t4 t5 t6 m1 m2 m3 m4 m5 m6 where vals:
    "a t = Fin t1" "b t = Fin t2" "c t = Fin t3" "d t = Fin t4" "tx t = Fin t5" "ty t = Fin t6"
    "a m = Fin m1" "b m = Fin m2" "c m = Fin m3" "d m = Fin m4" "tx m = Fin m5" "ty m = Fin m6"
    "a' = t1 * m1 + t2 * m3" "b' = t1 * m2 + t2 * m4" "c' = t3 * m1 + t4 * m3"
    "d' = t3 * m2 + t4 * m4" "tx' = t5 * m1 + t6 * m3 + m5" "ty' = t5 * m2 + t6 * m4 + m6"
    by (elim exE conjE) simp
  from affine_Fin [OF left(1)] affine_Fin [OF left(2)]
  obtain p1 p2 where pv: "u = Fin p1" "v = Fin p2"
    and fx: "fx = a' * p1 + c' * p2 + tx'" and fy: "fy = b' * p1 + d' * p2 + ty'"
    by (elim exE conjE) simp
  from affine_Fin [OF right(1)] obtain k1 k2 where
    inner: "a t * u + c t * v + tx t = Fin k1" "b t * u + d t * v + ty t = Fin k2"
    and gx: "gx = m1 * k1 + m3 * k2 + m5"
    using vals by (elim exE conjE) simp
  from affine_Fin [OF right(2)] have gy: "gy = m2 * k1 + m4 * k2 + m6"
    using vals inner by (elim exE conjE) simp
  from affine_Fin [OF inner(1)] have k1: "k1 = t1 * p1 + t3 * p2 + t5"
    using vals pv by (elim exE conjE) simp
  from affine_Fin [OF inner(2)] have k2: "k2 = t2 * p1 + t4 * p2 + t6"
    using vals pv by (elim exE conjE) simp
  have "fx = gx" and "fy = gy"
    unfolding fx fy gx gy k1 k2 vals by (simp_all add: algebra_simps)
  moreover have "Matrix_apply (Matrix_append m t) p = (Fin fx, Fin fy)"
    unfolding Matrix_apply_def Matrix_append_def p using comp left by simp
  moreover have "Matrix_apply m (Matrix_apply t p) = (Fin gx, Fin gy)"
    unfolding Matrix_apply_def p using right by simp
  ultimately show ?thesis
    by simp
qed

section \<open>The projection derivation\<close>

text \<open>
  With a source frame at hand \<open>calculateProjection\<close> returns, and the matrix it leaves
  is the old one with four fields overwritten.
\<close>

lemma calculateProjection_Some:
  "calculateProjection dst (Some sf) res isRoot s =
     (Normal, s\<lparr>projectionMatrix := (projectionMatrix s)
        \<lparr>a := Fin 2 / width sf,
         d := (if isRoot then Fin (- 1) else Fin 1) * (Fin 2 / height sf),
         tx := Fin (- 1) - x sf * (Fin 2 / width sf),
         ty := - (if isRoot then Fin (- 1) else Fin 1)
                 - y sf * ((if isRoot then Fin (- 1) else Fin 1) * (Fin 2 / height sf))\<rparr>\<rparr>)"
  by (simp add: calculateProjection_def twice_inverse Let_def)

lemma calculateProjection_None:
  "calculateProjection dst None res isRoot s = (Throws TypeError, s)"
  by (simp add: calculateProjection_def)

lemma calculateProjection_b_c:
  "b (projectionMatrix (snd (calculateProjection dst src res isRoot s))) = b (projectionMatrix s)"
  "c (projectionMatrix (snd (calculateProjection dst src res isRoot s))) = c (projectionMatrix s)"
  by (cases src; simp add: calculateProjection_None calculateProjection_Some)+

text \<open>
  Claim C2, as amended. For every call of \<open>calculateProjection\<close> with a source frame and
  an orientation flag, with sign \<open>-1\<close> for a root target and \<open>+1\<close> otherwise, the matrix
  afterwards has \<open>a = 2 / width\<close>, \<open>d = sign * (2 / height)\<close>, \<open>tx = -1 - x * a\<close> and
  \<open>ty = -sign - y * d\<close>, while \<open>b\<close> and \<open>c\<close> keep the values they had before the call.
  For the frame \<open>{0, 0, 800, 600}\<close> and a non-root target the four written fields are
  \<open>0.0025\<close>, \<open>1/300\<close>, \<open>-1\<close> and \<open>-1\<close>.
\<close>

theorem calculateProjection_writes:
  "fst (calculateProjection dst (Some sf) res isRoot s) = Normal
   \<and> a (projectionMatrix (snd (calculateProjection dst (Some sf) res isRoot s)))
       = Fin 2 / width sf
   \<and> d (projectionMatrix (snd (calculateProjection dst (Some sf) res isRoot s)))
       = (if isRoot then Fin (- 1) else Fin 1) * (Fin 2 / height sf)
   \<and> b (projectionMatrix (snd (calculateProjection dst (Some sf) res isRoot s)))
       = b (projectionMatrix s)
   \<and> c (projectionMatrix (snd (calculateProjection dst (Some sf) res isRoot s)))
       = c (projectionMatrix s)
   \<and> tx (projectionMatrix (snd (calculateProjection dst (Some sf) res isRoot s)))
       = Fin (- 1) - x sf
           * a (projectionMatrix (snd (calculateProjection dst (Some sf) res isRoot s)))
   \<and> ty (projectionMatrix (snd (calculateProjection dst (Some sf) res isRoot s)))
       = - (if isRoot then Fin (- 1) else Fin 1) - y sf
           * d (projectionMatrix (snd (calculateProjection dst (Some sf) res isRoot s)))
   \<and> projectionMatrix (snd (calculateProjection dst (Some frame_800_600) res False s))
       = (projectionMatrix s)
           \<lparr>a := Fin 0.0025, d := Fin (1 / 300), tx := Fin (- 1), ty := Fin (- 1)\<rparr>"
  by (simp add: calculateProjection_Some frame_800_600_def minus_number_def overflow_small)

text \<open>
  Claim C2 as stated also asks for \<open>b = 0\<close> and \<open>c = 0\<close> after every call. A quarter turn
  is set as \<open>transform\<close> on a new system and \<open>update\<close> runs once on the frame
  \<open>{0, 0, 800, 600}\<close>; a call of \<open>calculateProjection\<close> on the resulting state leaves
  \<open>b = 1/300\<close>, the value the appended transform had put there.
\<close>

theorem calculateProjection_keeps_b:
  "b (projectionMatrix (snd (calculateProjection (Some frame_800_600) (Some frame_800_600)
        (Fin 1) False
        (snd (update (Some frame_800_600) (Some frame_800_600) (Fin 1) False
               ((constructor renderer_no_shader)\<lparr>transform := Some quarter_turn\<rparr>))))))
     = Fin (1 / 300)
   \<and> b (projectionMatrix (snd (calculateProjection (Some frame_800_600) (Some frame_800_600)
        (Fin 1) False
        (snd (update (Some frame_800_600) (Some frame_800_600) (Fin 1) False
               ((constructor renderer_no_shader)\<lparr>transform := Some quarter_turn\<rparr>))))))
     \<noteq> Fin 0"
  by (simp add: update_def resolveAndProject_def resolveFrames_def calculateProjection_Some
      appendTransform_def Matrix_append_def constructor_def Matrix_new_def quarter_turn_def
      frame_800_600_def minus_number_def overflow_small)

text \<open>
  Claim C7. For every source frame and every state, the \<open>d\<close> written for a root target is
  the negation of the \<open>d\<close> written for a non-root target, and when the frame's \<open>y\<close> is
  zero the same holds for \<open>ty\<close>. A non-root target uses sign \<open>+1\<close> (\<open>d = 2 / height\<close>,
  \<open>ty = -1 - y * d\<close>) and a root target sign \<open>-1\<close> (\<open>d = - (2 / height)\<close>,
  \<open>ty = 1 - y * d\<close>).
\<close>

theorem sign_flip:
  "d (projectionMatrix (snd (calculateProjection dst (Some sf) res True s)))
     = - d (projectionMatrix (snd (calculateProjection dst (Some sf) res False s)))
   \<and> d (projectionMatrix (snd (calculateProjection dst (Some sf) res False s)))
       = Fin 2 / height sf
   \<and> d (projectionMatrix (snd (calculateProjection dst (Some sf) res True s)))
       = - (Fin 2 / height sf)
   \<and> ty (projectionMatrix (snd (calculateProjection dst (Some sf) res False s)))
       = Fin (- 1) - y sf
           * d (projectionMatrix (snd (calculateProjection dst (Some sf) res False s)))
   \<and> ty (projectionMatrix (snd (calculateProjection dst (Some sf) res True s)))
       = Fin 1 - y sf
           * d (projectionMatrix (snd (calculateProjection dst (Some sf) res True s)))
   \<and> (y sf = Fin 0 \<longrightarrow>
        ty (projectionMatrix (snd (calculateProjection dst (Some sf) res True s)))
          = - ty (projectionMatrix (snd (calculateProjection dst (Some sf) res False s))))"
  by (simp add: calculateProjection_Some one_times_quot minus_one_times_quot minus_number_def
      uminus_plus uminus_uminus zero_times_uminus uminus_zero_times)

theorem sign_flip_witness:
  "y frame_800_600 = Fin 0
   \<and> d (projectionMatrix (snd (calculateProjection None (Some frame_800_600) (Fin 1) True
          (constructor renderer_no_shader)))) = Fin (- (1 / 300))
   \<and> d (projectionMatrix (snd (calculateProjection None (Some frame_800_600) (Fin 1) False
          (constructor renderer_no_shader)))) = Fin (1 / 300)
   \<and> ty (projectionMatrix (snd (calculateProjection None (Some frame_800_600) (Fin 1) True
          (constructor renderer_no_shader)))) = Fin 1
   \<and> ty (projectionMatrix (snd (calculateProjection None (Some frame_800_600) (Fin 1) False
          (constructor renderer_no_shader)))) = Fin (- 1)"
  using sign_flip [of None frame_800_600 "Fin 1" "constructor renderer_no_shader"]
  by (simp add: frame_800_600_def minus_number_def overflow_small)

section \<open>update\<close>

text \<open>The steps of \<open>update\<close>, one by one.\<close>

lemma resolveFrames_simps:
  "destinationFrame (resolveFrames dst src s)
     = orElse dst (orElse (destinationFrame s) (defaultFrame s))"
  "sourceFrame (resolveFrames dst src s) = orElse src (orElse (sourceFrame s) dst)"
  "defaultFrame (resolveFrames dst src s) = defaultFrame s"
  "projectionMatrix (resolveFrames dst src s) = projectionMatrix s"
  "transform (resolveFrames dst src s) = transform s"
  "renderer (resolveFrames dst src s) = renderer s"
  by (simp_all add: resolveFrames_def)

lemma resolveFrames_again:
  assumes "sourceFrame (resolveFrames dst src s) = Some sf" and "sourceFrame s' = Some sf"
  shows "sourceFrame (resolveFrames dst src s') = Some sf"
  using assms by (cases src) (simp_all add: resolveFrames_simps)

lemma resolveAndProject_Some:
  "sourceFrame (resolveFrames dst src s) = Some sf \<Longrightarrow>
   resolveAndProject dst src res isRoot s =
     (Normal, (resolveFrames dst src s)\<lparr>projectionMatrix := (projectionMatrix s)
        \<lparr>a := Fin 2 / width sf,
         d := (if isRoot then Fin (- 1) else Fin 1) * (Fin 2 / height sf),
         tx := Fin (- 1) - x sf * (Fin 2 / width sf),
         ty := - (if isRoot then Fin (- 1) else Fin 1)
                 - y sf * ((if isRoot then Fin (- 1) else Fin 1) * (Fin 2 / height sf))\<rparr>\<rparr>)"
  by (simp add: resolveAndProject_def calculateProjection_Some resolveFrames_simps)

lemma resolveAndProject_None:
  "sourceFrame (resolveFrames dst src s) = None \<Longrightarrow>
   resolveAndProject dst src res isRoot s = (Throws TypeError, resolveFrames dst src s)"
  by (simp add: resolveAndProject_def calculateProjection_def)

lemma resolveAndProject_b_c:
  "b (projectionMatrix (snd (resolveAndProject dst src res isRoot s))) = b (projectionMatrix s)"
  "c (projectionMatrix (snd (resolveAndProject dst src res isRoot s))) = c (projectionMatrix s)"
  by (simp_all add: resolveAndProject_def Let_def calculateProjection_b_c resolveFrames_simps)

lemma update_Some:
  "sourceFrame (resolveFrames dst src s) = Some sf \<Longrightarrow>
   update dst src res isRoot s =
     (Normal,
      (appendTransform (snd (resolveAndProject dst src res isRoot s)))
        \<lparr>renderer := propagate
           (projectionMatrix (appendTransform (snd (resolveAndProject dst src res isRoot s))))
           (renderer s)\<rparr>)"
  by (simp add: update_def resolveAndProject_Some appendTransform_def resolveFrames_simps
      split: option.splits)

lemma update_None:
  "sourceFrame (resolveFrames dst src s) = None \<Longrightarrow>
   update dst src res isRoot s = (Throws TypeError, resolveFrames dst src s)"
  by (simp add: update_def resolveAndProject_None)

lemma update_matrix:
  assumes "sourceFrame (resolveFrames dst src s) = Some sf"
  shows "projectionMatrix (snd (update dst src res isRoot s))
     = (case transform s of
          None \<Rightarrow> projectionMatrix (snd (calculateProjection None (Some sf) res isRoot s))
        | Some t \<Rightarrow>
            Matrix_append (projectionMatrix (snd (calculateProjection None (Some sf) res isRoot s)))
              t)"
  using assms
  by (simp add: update_Some resolveAndProject_Some appendTransform_def resolveFrames_simps
      calculateProjection_Some split: option.splits)

lemma update_keeps:
  assumes "sourceFrame (resolveFrames dst src s) = Some sf"
  shows "sourceFrame (snd (update dst src res isRoot s)) = Some sf"
    and "transform (snd (update dst src res isRoot s)) = transform s"
  using assms
  by (simp_all add: update_Some resolveAndProject_Some appendTransform_def resolveFrames_simps
      split: option.splits)

text \<open>
  Claim C8. The resolution argument does not enter the computation: two calls of \<open>update\<close>
  from the same state that differ only in the resolution end in the same way and in the
  same state, which holds the frames, the projection matrix and the renderer with its
  uniform store.
\<close>

theorem resolution_unused:
  "update dst src res1 isRoot s = update dst src res2 isRoot s"
  by (simp add: update_def resolveAndProject_def calculateProjection_def)

text \<open>
  Claim C1. A new system whose \<open>defaultFrame\<close> is \<open>{0, 0, 800, 600}\<close> receives
  \<open>update(null, null, 1, false)\<close>. The stored destination becomes the default frame, but
  the stored source falls back to the \<open>null\<close> argument and stays \<open>null\<close>, and
  \<open>calculateProjection\<close> throws on it.
\<close>

theorem default_frame_source_null:
  "update None None (Fin 1) False
     ((constructor renderer_no_shader)\<lparr>defaultFrame := Some frame_800_600\<rparr>)
   = (Throws TypeError,
      (constructor renderer_no_shader)
        \<lparr>defaultFrame := Some frame_800_600, destinationFrame := Some frame_800_600\<rparr>)
   \<and> sourceFrame (snd (update None None (Fin 1) False
        ((constructor renderer_no_shader)\<lparr>defaultFrame := Some frame_800_600\<rparr>))) = None"
  by (simp add: update_def resolveAndProject_def resolveFrames_def calculateProjection_def
      constructor_def)

text \<open>
  Claim C6. After one call \<open>update(destA, srcA, resolution, root)\<close> with both frames given,
  from any state, the system stores \<open>destA\<close> and \<open>srcA\<close>; a following call
  \<open>update(null, null, resolution', root')\<close> returns, still stores \<open>destA\<close> and \<open>srcA\<close>, and
  does in every respect what the call with \<open>destA\<close> and \<open>srcA\<close> passed again would do.
\<close>

theorem frames_persist:
  "fst (update (Some dA) (Some sA) res isRoot s) = Normal
   \<and> destinationFrame (snd (update (Some dA) (Some sA) res isRoot s)) = Some dA
   \<and> sourceFrame (snd (update (Some dA) (Some sA) res isRoot s)) = Some sA
   \<and> fst (update None None res' isRoot' (snd (update (Some dA) (Some sA) res isRoot s)))
       = Normal
   \<and> destinationFrame
        (snd (update None None res' isRoot' (snd (update (Some dA) (Some sA) res isRoot s))))
       = Some dA
   \<and> sourceFrame
        (snd (update None None res' isRoot' (snd (update (Some dA) (Some sA) res isRoot s))))
       = Some sA
   \<and> update None None res' isRoot' (snd (update (Some dA) (Some sA) res isRoot s))
       = update (Some dA) (Some sA) res' isRoot' (snd (update (Some dA) (Some sA) res isRoot s))"
  by (simp add: update_def resolveAndProject_def resolveFrames_def calculateProjection_Some
      appendTransform_def split: option.splits)

text \<open>
  Claim C5. \<open>calculateProjection\<close> never writes \<open>b\<close> or \<open>c\<close>: whatever its arguments, the
  two fields are after the call what they were before it. So the matrix that \<open>update\<close>
  hands to the append step carries the \<open>b\<close> and \<open>c\<close> that the previous update left, and
  when no transform is set they are still there when \<open>update\<close> returns or throws.
\<close>

theorem stale_b_c:
  "b (projectionMatrix (snd (calculateProjection dst src res isRoot s))) = b (projectionMatrix s)
   \<and> c (projectionMatrix (snd (calculateProjection dst src res isRoot s)))
       = c (projectionMatrix s)
   \<and> b (projectionMatrix (snd (resolveAndProject dst src res isRoot s)))
       = b (projectionMatrix s)
   \<and> c (projectionMatrix (snd (resolveAndProject dst src res isRoot s)))
       = c (projectionMatrix s)
   \<and> (transform s = None \<longrightarrow>
        b (projectionMatrix (snd (update dst src res isRoot s))) = b (projectionMatrix s)
        \<and> c (projectionMatrix (snd (update dst src res isRoot s))) = c (projectionMatrix s))"
proof (cases "sourceFrame (resolveFrames dst src s)")
  case None
  then show ?thesis
    by (simp add: calculateProjection_b_c resolveAndProject_b_c update_None resolveFrames_simps)
next
  case (Some sf)
  then show ?thesis
    by (simp add: calculateProjection_b_c resolveAndProject_b_c update_Some
        resolveAndProject_Some appendTransform_def resolveFrames_simps)
qed

text \<open>
  An instance: a quarter turn is appended by a first update, the transform is then
  removed, and the second update still leaves the \<open>b\<close> and \<open>c\<close> of the first.
\<close>

theorem stale_b_c_witness:
  "transform
     ((snd (update (Some frame_800_600) (Some frame_800_600) (Fin 1) False
              ((constructor renderer_no_shader)\<lparr>transform := Some quarter_turn\<rparr>)))
        \<lparr>transform := None\<rparr>) = None
   \<and> b (projectionMatrix (snd (update None None (Fin 1) False
        ((snd (update (Some frame_800_600) (Some frame_800_600) (Fin 1) False
                 ((constructor renderer_no_shader)\<lparr>transform := Some quarter_turn\<rparr>)))
           \<lparr>transform := None\<rparr>)))) = Fin (1 / 300)
   \<and> c (projectionMatrix (snd (update None None (Fin 1) False
        ((snd (update (Some frame_800_600) (Some frame_800_600) (Fin 1) False
                 ((constructor renderer_no_shader)\<lparr>transform := Some quarter_turn\<rparr>)))
           \<lparr>transform := None\<rparr>)))) = Fin (- (1 / 400))"
  using stale_b_c [of None None "Fin 1" False
      "(snd (update (Some frame_800_600) (Some frame_800_600) (Fin 1) False
               ((constructor renderer_no_shader)\<lparr>transform := Some quarter_turn\<rparr>)))
         \<lparr>transform := None\<rparr>"]
  by (simp add: update_def resolveAndProject_def resolveFrames_def calculateProjection_Some
      appendTransform_def Matrix_append_def constructor_def Matrix_new_def quarter_turn_def
      frame_800_600_def minus_number_def overflow_small)

text \<open>
  Claim C9, as amended. Take a call of \<open>update\<close> that resolves a source frame. The call
  returns whether a shader is bound or not; the uniform store holds the projection
  matrix under \<open>projectionMatrix\<close>; \<open>globalUniforms.update()\<close> is called once; and after
  it \<open>syncUniformGroup\<close> is called on the globals group of the bound shader if there is
  one, and not at all if there is none.
\<close>

theorem shader_sync:
  assumes "sourceFrame (resolveFrames dst src s) \<noteq> None"
  shows "fst (update dst src res isRoot s) = Normal
   \<and> uniforms (renderer (snd (update dst src res isRoot s))) ''projectionMatrix''
       = Some (projectionMatrix (snd (update dst src res isRoot s)))
   \<and> shader (renderer (snd (update dst src res isRoot s))) = shader (renderer s)
   \<and> calls (renderer (snd (update dst src res isRoot s)))
       = calls (renderer s) @ GlobalUniforms_update
           # (case shader (renderer s) of
                None \<Rightarrow> []
              | Some sh \<Rightarrow> [SyncUniformGroup (globals sh)])"
proof -
  from assms obtain sf where "sourceFrame (resolveFrames dst src s) = Some sf"
    by auto
  then show ?thesis
    by (simp add: update_Some propagate_def Let_def split: option.splits)
qed

theorem shader_sync_witness:
  "sourceFrame (resolveFrames None (Some frame_800_600) (constructor renderer_no_shader))
     \<noteq> None
   \<and> fst (update None (Some frame_800_600) (Fin 1) False (constructor renderer_no_shader))
       = Normal
   \<and> calls (renderer (snd (update None (Some frame_800_600) (Fin 1) False
        (constructor renderer_no_shader)))) = [GlobalUniforms_update]
   \<and> calls (renderer (snd (update None (Some frame_800_600) (Fin 1) False
        (constructor renderer_with_shader))))
       = [GlobalUniforms_update, SyncUniformGroup (UniformGroup 7)]
   \<and> uniforms (renderer (snd (update None (Some frame_800_600) (Fin 1) False
        (constructor renderer_no_shader)))) ''projectionMatrix''
       = Some \<lparr>a = Fin (1 / 400), b = Fin 0, c = Fin 0, d = Fin (1 / 300),
                tx = Fin (- 1), ty = Fin (- 1)\<rparr>"
  using shader_sync [of None "Some frame_800_600" "constructor renderer_no_shader"
      "Fin 1" False]
    shader_sync [of None "Some frame_800_600" "constructor renderer_with_shader"
      "Fin 1" False]
  by (simp add: update_def resolveAndProject_def resolveFrames_def calculateProjection_Some
      appendTransform_def propagate_def constructor_def Matrix_new_def
      renderer_no_shader_def renderer_with_shader_def frame_800_600_def minus_number_def
      overflow_small)

text \<open>
  Claim C9 as stated has the store written and \<open>globalUniforms.update()\<close> called on
  every update. On a new system with no shader bound, \<open>update(null, null, 1, false)\<close>
  resolves no source frame: the call throws in \<open>calculateProjection\<close>, the store has
  no entry under \<open>projectionMatrix\<close>, and no method of the renderer has been called.
\<close>

theorem update_throws_before_renderer:
  "fst (update None None (Fin 1) False (constructor renderer_no_shader)) = Throws TypeError
   \<and> uniforms (renderer (snd (update None None (Fin 1) False
        (constructor renderer_no_shader)))) ''projectionMatrix'' = None
   \<and> calls (renderer (snd (update None None (Fin 1) False
        (constructor renderer_no_shader)))) = []"
  by (simp add: update_def resolveAndProject_def resolveFrames_def calculateProjection_def
      constructor_def renderer_no_shader_def)

text \<open>
  Claim C4, as amended. Whenever \<open>transform\<close> is set and \<open>update\<close> resolves a source
  frame, the call returns and the projection matrix is the derived matrix with
  \<open>transform\<close> appended. The derived matrix is the one \<open>calculateProjection\<close> leaves for
  the resolved source frame: \<open>a = 2 / width\<close>, \<open>d = sign * (2 / height)\<close>,
  \<open>tx = -1 - x * a\<close>, \<open>ty = -sign - y * d\<close>, and the \<open>b\<close> and \<open>c\<close> the matrix had before
  the call. Appending post-multiplies, so the transform acts before the projection, in
  object space: the offset \<open>(tx, ty)\<close> of the final matrix is the offset of
  \<open>transform\<close> sent through the derived matrix.
\<close>

theorem transform_appended:
  assumes "transform s = Some t" and "sourceFrame (resolveFrames dst src s) = Some sf"
  shows "fst (update dst src res isRoot s) = Normal
   \<and> projectionMatrix (snd (resolveAndProject dst src res isRoot s))
       = (projectionMatrix s)
           \<lparr>a := Fin 2 / width sf,
            d := (if isRoot then Fin (- 1) else Fin 1) * (Fin 2 / height sf),
            tx := Fin (- 1) - x sf * (Fin 2 / width sf),
            ty := - (if isRoot then Fin (- 1) else Fin 1)
                    - y sf * ((if isRoot then Fin (- 1) else Fin 1) * (Fin 2 / height sf))\<rparr>
   \<and> projectionMatrix (snd (update dst src res isRoot s))
       = Matrix_append (projectionMatrix (snd (resolveAndProject dst src res isRoot s))) t
   \<and> (tx (projectionMatrix (snd (update dst src res isRoot s))),
       ty (projectionMatrix (snd (update dst src res isRoot s))))
       = Matrix_apply (projectionMatrix (snd (resolveAndProject dst src res isRoot s)))
           (tx t, ty t)"
proof -
  note sf = assms(2)
  have tr: "transform (snd (resolveAndProject dst src res isRoot s)) = Some t"
    using assms(1) sf by (simp add: resolveAndProject_Some resolveFrames_simps)
  have pm: "projectionMatrix (snd (update dst src res isRoot s))
       = Matrix_append (projectionMatrix (snd (resolveAndProject dst src res isRoot s))) t"
    using sf tr by (simp add: update_Some appendTransform_def)
  have ret: "fst (update dst src res isRoot s) = Normal"
    using sf by (simp add: update_Some)
  have derived: "projectionMatrix (snd (resolveAndProject dst src res isRoot s))
       = (projectionMatrix s)
           \<lparr>a := Fin 2 / width sf,
            d := (if isRoot then Fin (- 1) else Fin 1) * (Fin 2 / height sf),
            tx := Fin (- 1) - x sf * (Fin 2 / width sf),
            ty := - (if isRoot then Fin (- 1) else Fin 1)
                    - y sf * ((if isRoot then Fin (- 1) else Fin 1) * (Fin 2 / height sf))\<rparr>"
    using sf by (simp add: resolveAndProject_Some resolveFrames_simps)
  have offset: "(tx (Matrix_append m t), ty (Matrix_append m t)) = Matrix_apply m (tx t, ty t)"
    for m
    by (simp add: Matrix_append_def Matrix_apply_def times_commute)
  show ?thesis
    using ret derived pm offset by metis
qed

text \<open>
  An instance: a scaling by \<open>(2, 3)\<close> with a shift of \<open>1\<close> along \<open>x\<close> as transform, on
  the frame \<open>{0, 0, 800, 600}\<close>. The projection sends the shift \<open>(1, 0)\<close> to
  \<open>(-399/400, -1)\<close>, the offset of the final matrix.
\<close>

theorem transform_appended_witness:
  "transform ((constructor renderer_no_shader)\<lparr>transform := Some scaling\<rparr>) = Some scaling
   \<and> sourceFrame (resolveFrames (Some frame_800_600) (Some frame_800_600)
        ((constructor renderer_no_shader)\<lparr>transform := Some scaling\<rparr>))
       = Some frame_800_600
   \<and> projectionMatrix (snd (resolveAndProject (Some frame_800_600) (Some frame_800_600)
        (Fin 1) False ((constructor renderer_no_shader)\<lparr>transform := Some scaling\<rparr>)))
       = \<lparr>a = Fin (1 / 400), b = Fin 0, c = Fin 0, d = Fin (1 / 300),
          tx = Fin (- 1), ty = Fin (- 1)\<rparr>
   \<and> projectionMatrix (snd (update (Some frame_800_600) (Some frame_800_600) (Fin 1) False
        ((constructor renderer_no_shader)\<lparr>transform := Some scaling\<rparr>)))
       = \<lparr>a = Fin (1 / 200), b = Fin 0, c = Fin 0, d = Fin (1 / 100),
          tx = Fin (- (399 / 400)), ty = Fin (- 1)\<rparr>
   \<and> Matrix_apply
        (projectionMatrix (snd (resolveAndProject (Some frame_800_600) (Some frame_800_600)
           (Fin 1) False ((constructor renderer_no_shader)\<lparr>transform := Some scaling\<rparr>))))
        (tx scaling, ty scaling) = (Fin (- (399 / 400)), Fin (- 1))"
  using transform_appended [of "(constructor renderer_no_shader)\<lparr>transform := Some scaling\<rparr>"
      scaling "Some frame_800_600" "Some frame_800_600" frame_800_600 "Fin 1" False]
  by (simp add: update_def resolveAndProject_def resolveFrames_def calculateProjection_Some
      appendTransform_def Matrix_append_def Matrix_apply_def constructor_def Matrix_new_def
      scaling_def frame_800_600_def minus_number_def overflow_small)

text \<open>
  Claim C4 as stated has the transform act after the projection. In the instance above
  the projection sends the corner \<open>(800, 600)\<close> to \<open>(1, 1)\<close> and the transform sends that
  to \<open>(3, 3)\<close>, while the final matrix sends the corner to \<open>(3.0025, 5)\<close>. The claim also
  takes the derived matrix to be the derivation's alone, with \<open>b = c = 0\<close>: after a first
  update with a quarter turn as transform, the second update appends to a matrix whose
  \<open>b\<close> is \<open>1/300\<close>.
\<close>

theorem transform_not_after_projection:
  "Matrix_apply
     (projectionMatrix (snd (resolveAndProject (Some frame_800_600) (Some frame_800_600)
        (Fin 1) False ((constructor renderer_no_shader)\<lparr>transform := Some scaling\<rparr>))))
     (Fin 800, Fin 600) = (Fin 1, Fin 1)
   \<and> Matrix_apply scaling (Fin 1, Fin 1) = (Fin 3, Fin 3)
   \<and> Matrix_apply
        (projectionMatrix (snd (update (Some frame_800_600) (Some frame_800_600)
           (Fin 1) False ((constructor renderer_no_shader)\<lparr>transform := Some scaling\<rparr>))))
        (Fin 800, Fin 600) = (Fin (1201 / 400), Fin 5)
   \<and> Matrix_apply
        (projectionMatrix (snd (update (Some frame_800_600) (Some frame_800_600)
           (Fin 1) False ((constructor renderer_no_shader)\<lparr>transform := Some scaling\<rparr>))))
        (Fin 800, Fin 600)
       \<noteq> Matrix_apply scaling
           (Matrix_apply
              (projectionMatrix (snd (resolveAndProject (Some frame_800_600)
                 (Some frame_800_600) (Fin 1) False
                 ((constructor renderer_no_shader)\<lparr>transform := Some scaling\<rparr>))))
              (Fin 800, Fin 600))
   \<and> b (projectionMatrix (snd (resolveAndProject (Some frame_800_600) (Some frame_800_600)
        (Fin 1) False
        (snd (update (Some frame_800_600) (Some frame_800_600) (Fin 1) False
               ((constructor renderer_no_shader)\<lparr>transform := Some quarter_turn\<rparr>))))))
       = Fin (1 / 300)"
  by (simp add: update_def resolveAndProject_def resolveFrames_def calculateProjection_Some
      appendTransform_def Matrix_append_def Matrix_apply_def constructor_def Matrix_new_def
      scaling_def quarter_turn_def frame_800_600_def minus_number_def overflow_small)

text \<open>
  Claim C10. When the resolved source frame has width zero or height zero, \<open>update\<close>
  does not throw. The scale factor that the derivation writes is not finite: \<open>a\<close> for a
  zero width, \<open>d\<close> for a zero height. The matrix, with the transform appended if one is
  set, is not finite either; it is what \<open>projectionMatrix\<close> holds when \<open>update\<close> returns
  and what the uniform store holds under \<open>projectionMatrix\<close>.
\<close>

theorem degenerate_frame:
  assumes "sourceFrame (resolveFrames dst src s) = Some sf"
    and "width sf = Fin 0 \<or> height sf = Fin 0"
  shows "fst (update dst src res isRoot s) = Normal
   \<and> (width sf = Fin 0 \<longrightarrow>
        \<not> isFinite (a (projectionMatrix (snd (resolveAndProject dst src res isRoot s))))
        \<and> \<not> isFinite (a (projectionMatrix (snd (update dst src res isRoot s)))))
   \<and> (height sf = Fin 0 \<longrightarrow>
        \<not> isFinite (d (projectionMatrix (snd (resolveAndProject dst src res isRoot s))))
        \<and> \<not> isFinite (d (projectionMatrix (snd (update dst src res isRoot s)))))
   \<and> \<not> finiteMatrix (projectionMatrix (snd (update dst src res isRoot s)))
   \<and> projectionMatrix (snd (update dst src res isRoot s))
       = (case transform s of
            None \<Rightarrow> projectionMatrix (snd (resolveAndProject dst src res isRoot s))
          | Some t \<Rightarrow>
              Matrix_append (projectionMatrix (snd (resolveAndProject dst src res isRoot s))) t)
   \<and> uniforms (renderer (snd (update dst src res isRoot s))) ''projectionMatrix''
       = Some (projectionMatrix (snd (update dst src res isRoot s)))"
proof -
  let ?P = "projectionMatrix (snd (resolveAndProject dst src res isRoot s))"
  let ?Q = "projectionMatrix (snd (update dst src res isRoot s))"
  have ret: "fst (update dst src res isRoot s) = Normal"
    using assms(1) by (simp add: update_Some)
  have Q: "?Q = (case transform s of None \<Rightarrow> ?P | Some t \<Rightarrow> Matrix_append ?P t)"
    using assms(1)
    by (simp add: update_Some appendTransform_def resolveAndProject_Some resolveFrames_simps
        split: option.splits)
  have stored: "uniforms (renderer (snd (update dst src res isRoot s))) ''projectionMatrix''
       = Some ?Q"
    using assms(1) by (simp add: update_Some propagate_def Let_def split: option.splits)
  have aP: "\<not> isFinite (a ?P)" if "width sf = Fin 0"
    using assms(1) that by (simp add: resolveAndProject_Some)
  have dP: "\<not> isFinite (d ?P)" if "height sf = Fin 0"
    using assms(1) that by (simp add: resolveAndProject_Some)
  have aQ: "\<not> isFinite (a ?Q)" if "width sf = Fin 0"
    using aP [OF that]
    by (simp add: Q Matrix_append_def not_finite_times not_finite_plus_left
        split: option.splits)
  have dQ: "\<not> isFinite (d ?Q)" if "height sf = Fin 0"
    using dP [OF that]
    by (simp add: Q Matrix_append_def not_finite_times not_finite_plus_right
        split: option.splits)
  have "\<not> finiteMatrix ?Q"
    using assms(2) aQ dQ by (auto simp: finiteMatrix_def)
  with ret Q stored aP dP aQ dQ show ?thesis
    by blast
qed

text \<open>
  Two instances: a frame of width zero with a scaling as transform, and a frame of
  height zero on a root target with no transform.
\<close>

theorem degenerate_frame_witness:
  "width frame_zero_width = Fin 0
   \<and> height frame_zero_height = Fin 0
   \<and> update None (Some frame_zero_width) (Fin 1) False
        ((constructor renderer_no_shader)\<lparr>transform := Some scaling\<rparr>)
       = (Normal,
          \<lparr>destinationFrame = None, sourceFrame = Some frame_zero_width, defaultFrame = None,
           projectionMatrix =
             \<lparr>a = PInf, b = Fin 0, c = NaN, d = Fin (1 / 100), tx = NaN, ty = Fin (- 1)\<rparr>,
           transform = Some scaling,
           renderer =
             \<lparr>uniforms = [''projectionMatrix'' \<mapsto>
                  \<lparr>a = PInf, b = Fin 0, c = NaN, d = Fin (1 / 100), tx = NaN,
                   ty = Fin (- 1)\<rparr>],
              shader = None, calls = [GlobalUniforms_update]\<rparr>\<rparr>)
   \<and> projectionMatrix (snd (update None (Some frame_zero_height) (Fin 1) True
        (constructor renderer_no_shader)))
       = \<lparr>a = Fin (1 / 400), b = Fin 0, c = Fin 0, d = NInf, tx = Fin (- (41 / 40)),
          ty = PInf\<rparr>"
  using degenerate_frame [of None "Some frame_zero_width"
      "(constructor renderer_no_shader)\<lparr>transform := Some scaling\<rparr>" frame_zero_width
      "Fin 1" False]
    degenerate_frame [of None "Some frame_zero_height" "constructor renderer_no_shader"
      frame_zero_height "Fin 1" True]
  by (simp add: update_def resolveAndProject_def resolveFrames_def calculateProjection_Some
      appendTransform_def Matrix_append_def propagate_def constructor_def Matrix_new_def
      scaling_def renderer_no_shader_def frame_zero_width_def frame_zero_height_def
      minus_number_def overflow_small)

text \<open>
  Claim C3, as amended. Take a call of \<open>update\<close> that resolves a source frame, and repeat
  it with the same arguments. Both calls return, and the projection matrix after the
  second call is the one after the first, in each of two cases: no transform is set; or
  the transform has finite \<open>a\<close> and \<open>d\<close> and no rotation or shear (\<open>b = c = 0\<close>), the
  projection matrix had \<open>b = c = 0\<close> before the first call, and the \<open>a\<close> and \<open>d\<close> that
  \<open>calculateProjection\<close> writes for the source frame are finite.
\<close>

theorem update_twice:
  assumes "sourceFrame (resolveFrames dst src s) = Some sf"
    and "transform s = None
         \<or> (transform s = Some t \<and> b t = Fin 0 \<and> c t = Fin 0
            \<and> isFinite (a t) \<and> isFinite (d t)
            \<and> b (projectionMatrix s) = Fin 0 \<and> c (projectionMatrix s) = Fin 0
            \<and> isFinite (a (projectionMatrix (snd (resolveAndProject dst src res isRoot s))))
            \<and> isFinite (d (projectionMatrix (snd (resolveAndProject dst src res isRoot s)))))"
  shows "fst (update dst src res isRoot s) = Normal
   \<and> fst (update dst src res isRoot (snd (update dst src res isRoot s))) = Normal
   \<and> projectionMatrix (snd (update dst src res isRoot (snd (update dst src res isRoot s))))
       = projectionMatrix (snd (update dst src res isRoot s))"
proof -
  define s1 where "s1 = snd (update dst src res isRoot s)"
  let ?M = "projectionMatrix (snd (calculateProjection None (Some sf) res isRoot s))"
  have src1: "sourceFrame s1 = Some sf" and tr1: "transform s1 = transform s"
    unfolding s1_def using assms(1) by (rule update_keeps)+
  have again: "sourceFrame (resolveFrames dst src s1) = Some sf"
    using assms(1) src1 by (rule resolveFrames_again)
  note pm1 = update_matrix [OF assms(1), of res isRoot, folded s1_def]
  note pm2 = update_matrix [OF again, of res isRoot]
  have M: "projectionMatrix (snd (resolveAndProject dst src res isRoot s)) = ?M"
    using assms(1) by (simp add: resolveAndProject_Some calculateProjection_Some)
  have same: "projectionMatrix (snd (update dst src res isRoot s1)) = projectionMatrix s1"
    using assms(2)
  proof
    assume "transform s = None"
    then show ?thesis
      using pm1 pm2 tr1 by (simp add: calculateProjection_Some)
  next
    assume some: "transform s = Some t \<and> b t = Fin 0 \<and> c t = Fin 0
            \<and> isFinite (a t) \<and> isFinite (d t)
            \<and> b (projectionMatrix s) = Fin 0 \<and> c (projectionMatrix s) = Fin 0
            \<and> isFinite (a (projectionMatrix (snd (resolveAndProject dst src res isRoot s))))
            \<and> isFinite (d (projectionMatrix (snd (resolveAndProject dst src res isRoot s))))"
    then obtain ta td ma md where vals:
      "a t = Fin ta" "d t = Fin td" "b t = Fin 0" "c t = Fin 0" "a ?M = Fin ma" "d ?M = Fin md"
      unfolding isFinite_iff M by auto
    have stale: "b ?M = Fin 0" "c ?M = Fin 0"
      using some by (simp_all add: calculateProjection_b_c)
    have P1: "projectionMatrix s1 = Matrix_append ?M t"
      using pm1 some by simp
    have b1: "b (projectionMatrix s1) = Fin 0" and c1: "c (projectionMatrix s1) = Fin 0"
      unfolding P1 Matrix_append_def by (simp_all add: vals stale overflow_0)
    have "projectionMatrix (snd (calculateProjection None (Some sf) res isRoot s1)) = ?M"
      using b1 c1 some
      by (cases "projectionMatrix s1"; cases "projectionMatrix s")
        (simp add: calculateProjection_Some)
    then show ?thesis
      using pm2 P1 tr1 some by simp
  qed
  have "fst (update dst src res isRoot s) = Normal"
    using assms(1) by (simp add: update_Some)
  moreover have "fst (update dst src res isRoot s1) = Normal"
    using again by (simp add: update_Some)
  ultimately show ?thesis
    using same unfolding s1_def by simp
qed

text \<open>
  Two instances on the frame \<open>{0, 0, 800, 600}\<close>: a new system with a scaling as
  transform, and a new system with no transform.
\<close>

theorem update_twice_witness:
  "sourceFrame (resolveFrames (Some frame_800_600) None
      ((constructor renderer_no_shader)\<lparr>transform := Some scaling\<rparr>)) = Some frame_800_600
   \<and> b scaling = Fin 0 \<and> c scaling = Fin 0
   \<and> b (projectionMatrix ((constructor renderer_no_shader)\<lparr>transform := Some scaling\<rparr>))
       = Fin 0
   \<and> a (projectionMatrix (snd (resolveAndProject (Some frame_800_600) None (Fin 1) False
        ((constructor renderer_no_shader)\<lparr>transform := Some scaling\<rparr>)))) = Fin (1 / 400)
   \<and> projectionMatrix (snd (update (Some frame_800_600) None (Fin 1) False
        ((constructor renderer_no_shader)\<lparr>transform := Some scaling\<rparr>)))
       = \<lparr>a = Fin (1 / 200), b = Fin 0, c = Fin 0, d = Fin (1 / 100),
          tx = Fin (- (399 / 400)), ty = Fin (- 1)\<rparr>
   \<and> projectionMatrix (snd (update (Some frame_800_600) None (Fin 1) False
        (snd (update (Some frame_800_600) None (Fin 1) False
               ((constructor renderer_no_shader)\<lparr>transform := Some scaling\<rparr>)))))
       = \<lparr>a = Fin (1 / 200), b = Fin 0, c = Fin 0, d = Fin (1 / 100),
          tx = Fin (- (399 / 400)), ty = Fin (- 1)\<rparr>
   \<and> projectionMatrix (snd (update (Some frame_800_600) None (Fin 1) True
        (snd (update (Some frame_800_600) None (Fin 1) True
               (constructor renderer_no_shader)))))
       = projectionMatrix (snd (update (Some frame_800_600) None (Fin 1) True
           (constructor renderer_no_shader)))"
  using update_twice [of "Some frame_800_600" None
      "(constructor renderer_no_shader)\<lparr>transform := Some scaling\<rparr>" frame_800_600 scaling
      "Fin 1" False]
    update_twice [of "Some frame_800_600" None "constructor renderer_no_shader" frame_800_600
      scaling "Fin 1" True]
  by (simp add: update_def resolveAndProject_def resolveFrames_def calculateProjection_Some
      appendTransform_def Matrix_append_def constructor_def Matrix_new_def scaling_def
      frame_800_600_def minus_number_def overflow_small)

text \<open>
  Claim C3 as stated covers every transform and every frame. With a quarter turn as
  transform on a new system, two calls with the same arguments leave different
  matrices: the second call starts from the \<open>b\<close> and \<open>c\<close> that the first append has left,
  and the append reads them. With the scaling as transform and a frame whose width is
  the least positive double, \<open>a\<close> overflows; the first call leaves \<open>a\<close> infinite and
  \<open>c = NaN\<close>, and the second call leaves \<open>a = NaN\<close>.
\<close>

theorem update_twice_differs:
  "projectionMatrix (snd (update (Some frame_800_600) (Some frame_800_600) (Fin 1) False
      ((constructor renderer_no_shader)\<lparr>transform := Some quarter_turn\<rparr>)))
     = \<lparr>a = Fin 0, b = Fin (1 / 300), c = Fin (- (1 / 400)), d = Fin 0, tx = Fin (- 1),
        ty = Fin (- 1)\<rparr>
   \<and> projectionMatrix (snd (update (Some frame_800_600) (Some frame_800_600) (Fin 1) False
        (snd (update (Some frame_800_600) (Some frame_800_600) (Fin 1) False
               ((constructor renderer_no_shader)\<lparr>transform := Some quarter_turn\<rparr>)))))
     = \<lparr>a = Fin (- (1 / 400)), b = Fin (1 / 300), c = Fin (- (1 / 400)),
        d = Fin (- (1 / 300)), tx = Fin (- 1), ty = Fin (- 1)\<rparr>
   \<and> projectionMatrix (snd (update (Some frame_800_600) (Some frame_800_600) (Fin 1) False
        (snd (update (Some frame_800_600) (Some frame_800_600) (Fin 1) False
               ((constructor renderer_no_shader)\<lparr>transform := Some quarter_turn\<rparr>)))))
     \<noteq> projectionMatrix (snd (update (Some frame_800_600) (Some frame_800_600) (Fin 1) False
          ((constructor renderer_no_shader)\<lparr>transform := Some quarter_turn\<rparr>)))
   \<and> projectionMatrix (snd (update None (Some frame_tiny_width) (Fin 1) False
        ((constructor renderer_no_shader)\<lparr>transform := Some scaling\<rparr>)))
     = \<lparr>a = PInf, b = Fin 0, c = NaN, d = Fin (1 / 100), tx = NaN, ty = Fin (- 1)\<rparr>
   \<and> projectionMatrix (snd (update None (Some frame_tiny_width) (Fin 1) False
        (snd (update None (Some frame_tiny_width) (Fin 1) False
               ((constructor renderer_no_shader)\<lparr>transform := Some scaling\<rparr>)))))
     = \<lparr>a = NaN, b = Fin 0, c = NaN, d = Fin (1 / 100), tx = NaN, ty = Fin (- 1)\<rparr>"
  by (simp add: update_def resolveAndProject_def resolveFrames_def calculateProjection_Some
      appendTransform_def Matrix_append_def constructor_def Matrix_new_def quarter_turn_def
      scaling_def frame_800_600_def frame_tiny_width_def minus_number_def overflow_small
      overflow_large)

end
